theory Spec2Isabelle
  imports Complex_Main
begin

section \<open>Numbers\<close>

text \<open>
  The front end computes with JavaScript numbers. They are modelled as reals, so every
  statement below is about the exact value of each expression and says nothing about
  the rounding of IEEE doubles, nor about their overflow to \<open>Infinity\<close> and \<open>NaN\<close>.
  \<open>Math.sqrt\<close> of a negative number, which is \<open>NaN\<close>, is modelled with \<open>None\<close>.
\<close>

text \<open>\<open>Math.round\<close>: the nearest integer, a tie going towards plus infinity.\<close>

definition js_round :: "real \<Rightarrow> real" where
  "js_round v = of_int \<lfloor>v + 1 / 2\<rfloor>"

text \<open>\<open>v || d\<close> on a number: the falsy number is zero.\<close>

definition js_or :: "real \<Rightarrow> real \<Rightarrow> real" where
  "js_or v d = (if v = 0 then d else v)"

text \<open>\<open>Math.sqrt\<close>: \<open>NaN\<close> (here \<open>None\<close>) below zero.\<close>

definition js_sqrt :: "real \<Rightarrow> real option" where
  "js_sqrt v = (if v < 0 then None else Some (sqrt v))"

text \<open>\<open>Math.atan2 y x\<close> on reals; both arguments zero gives zero.\<close>

definition js_atan2 :: "real \<Rightarrow> real \<Rightarrow> real" where
  "js_atan2 y x =
     (if 0 < x then arctan (y / x)
      else if x < 0 \<and> 0 \<le> y then arctan (y / x) + pi
      else if x < 0 \<and> y < 0 then arctan (y / x) - pi
      else if 0 < y then pi / 2
      else if y < 0 then - (pi / 2)
      else 0)"

section \<open>Data\<close>

text \<open>The \<open>solar\<close> object attached to a building (HomePageClient.tsx, lines 134 to 156).\<close>

record solar =
  usable_area_m2 :: real
  capacity_kw :: real
  capacity_mw :: real
  annual_kwh :: real
  annual_mwh :: real
  capacity_factor :: real
  annual_revenue :: real
  gross_install_cost :: real
  itc_savings :: real
  install_cost :: real
  annual_om :: real
  payback_years :: real
  npv_25yr :: real
  co2_avoided_tons :: real
  co2_avoided_lifetime_tons :: real
  homes_powered :: real
  lifetime_mwh :: real
  cost_per_watt :: real
  itc_rate :: real
  discount_rate :: real
  degradation_rate :: real

text \<open>
  The airport totals: the sixteen fields that \<open>recalcTotals\<close> writes, and
  \<open>capacity_factor\<close>, which it copies from the totals it is given (any further field
  of the object is in the record's extension and is copied as well).
\<close>

record totals =
  building_count :: real
  total_roof_area_m2 :: real
  capacity_kw :: real
  capacity_mw :: real
  annual_mwh :: real
  annual_revenue :: real
  gross_install_cost :: real
  itc_savings :: real
  install_cost :: real
  annual_om :: real
  payback_years :: real
  npv_25yr :: real
  co2_avoided_tons :: real
  co2_avoided_lifetime_tons :: real
  homes_powered :: real
  lifetime_mwh :: real
  capacity_factor :: real

text \<open>A GeoJSON polygon: \<open>coordinates\<close> is a list of rings of \<open>[lng, lat]\<close> pairs.\<close>

record geometry =
  gtype :: string
  coordinates :: "real list list list"

text \<open>
  A building as the page handles it: the fields of \<open>CustomBuilding\<close> and the optional
  \<open>solar\<close> object. \<open>distance_km\<close> is \<open>None\<close> when it is \<open>NaN\<close>.
\<close>

record building =
  bid :: string
  geometry :: "geometry option"
  area_m2 :: real
  lat :: real
  lon :: real
  distance_km :: "real option"
  isCustom :: bool
  label :: "string option"
  solar :: "solar option"

text \<open>A drawn vertex \<open>{lat, lng}\<close>.\<close>

record latlng =
  lat :: real
  lng :: real

section \<open>Geometry (useCustomBuildings.ts)\<close>

text \<open>The loop of the shoelace formula, from index \<open>i\<close> with the sum so far.\<close>

function shoelace :: "(real \<times> real) list \<Rightarrow> nat \<Rightarrow> real \<Rightarrow> real" where
  "shoelace pts i area =
     (if i < length pts then
        (let j = (i + 1) mod length pts
         in shoelace pts (i + 1)
              (area + fst (pts ! i) * snd (pts ! j) - fst (pts ! j) * snd (pts ! i)))
      else area)"
  by pat_completeness auto
termination
  by (relation "measure (\<lambda>(pts, i, area). length pts - i)") auto

declare shoelace.simps [simp del]

text \<open>The projected points \<open>{x, y}\<close>, in metres relative to the first vertex.\<close>

definition project :: "latlng list \<Rightarrow> real \<Rightarrow> (real \<times> real) list" where
  "project latlngs cosLat =
     map (\<lambda>p. ((latlng.lng p - latlng.lng (latlngs ! 0)) * (pi / 180) * 6371000 * cosLat,
                (latlng.lat p - latlng.lat (latlngs ! 0)) * (pi / 180) * 6371000)) latlngs"

definition meanLat :: "latlng list \<Rightarrow> real" where
  "meanLat latlngs = foldl (\<lambda>s p. s + latlng.lat p) 0 latlngs / real (length latlngs)"

definition calcGeodesicArea :: "latlng list \<Rightarrow> real" where
  "calcGeodesicArea latlngs =
     (if length latlngs < 3 then 0
      else
        (let cosLat = cos ((meanLat latlngs * pi) / 180);
             pts = project latlngs cosLat;
             area = shoelace pts 0 0
         in \<bar>area / 2\<bar>))"

definition haversineKm :: "real \<Rightarrow> real \<Rightarrow> real \<Rightarrow> real \<Rightarrow> real option" where
  "haversineKm lat1 lon1 lat2 lon2 =
     (let R = 6371;
          dLat = ((lat2 - lat1) * pi) / 180;
          dLon = ((lon2 - lon1) * pi) / 180;
          a = (sin (dLat / 2))\<^sup>2 +
              cos ((lat1 * pi) / 180) * cos ((lat2 * pi) / 180) * (sin (dLon / 2))\<^sup>2
      in case js_sqrt a of
           None \<Rightarrow> None
         | Some sa \<Rightarrow>
             (case js_sqrt (1 - a) of
                None \<Rightarrow> None
              | Some sb \<Rightarrow> Some (R * 2 * js_atan2 sa sb)))"

definition latlngsToGeoJSON :: "latlng list \<Rightarrow> geometry" where
  "latlngsToGeoJSON latlngs =
     (let ring = map (\<lambda>p. [latlng.lng p, latlng.lat p]) latlngs;
          ring' =
            (if 0 < length ring \<and>
                (ring ! 0 ! 0 \<noteq> ring ! (length ring - 1) ! 0 \<or>
                 ring ! 0 ! 1 \<noteq> ring ! (length ring - 1) ! 1)
             then ring @ [[ring ! 0 ! 0, ring ! 0 ! 1]]
             else ring)
      in \<lparr> gtype = ''Polygon'', coordinates = [ring'] \<rparr>)"

text \<open>
  The mean of the vertices. The page calls it on lists of three vertices or more; on the
  empty list JavaScript divides zero by zero, which this definition does not model.
\<close>

definition centroid :: "latlng list \<Rightarrow> latlng" where
  "centroid latlngs =
     \<lparr> latlng.lat = foldl (\<lambda>s p. s + latlng.lat p) 0 latlngs / real (length latlngs),
       lng = foldl (\<lambda>s p. s + latlng.lng p) 0 latlngs / real (length latlngs) \<rparr>"

section \<open>The hook's state and \<open>addBuilding\<close>\<close>

text \<open>
  The React state \<open>buildings\<close> and the entry of \<open>localStorage\<close> for the airport
  (\<open>None\<close> when there is no entry).
\<close>

record hook_state =
  buildings :: "building list"
  stored :: "building list option"

text \<open>
  \<open>persist\<close>: \<open>ok\<close> is false when \<open>localStorage\<close> throws, which the code swallows.
\<close>

definition persist :: "bool \<Rightarrow> building list \<Rightarrow> hook_state \<Rightarrow> hook_state" where
  "persist ok items st =
     (if \<not> ok then st
      else if 0 < length items then st\<lparr> stored := Some items \<rparr>
      else st\<lparr> stored := None \<rparr>)"

text \<open>
  \<open>addBuilding\<close>. The airport centre, the identifier (made from the clock and a random
  number) and whether the storage accepts the write are parameters.
\<close>

definition addBuilding ::
  "real \<times> real \<Rightarrow> string \<Rightarrow> bool \<Rightarrow> latlng list \<Rightarrow> string option \<Rightarrow> hook_state
     \<Rightarrow> building option \<times> hook_state" where
  "addBuilding airportCenter new_id ok latlngs lbl st =
     (if length latlngs < 3 then (None, st)
      else
        (let area = calcGeodesicArea latlngs
         in if area < 1 then (None, st)
            else
              (let center = centroid latlngs;
                   dist = haversineKm (fst airportCenter) (snd airportCenter)
                            (latlng.lat center) (latlng.lng center);
                   b = \<lparr> bid = new_id,
                         geometry = Some (latlngsToGeoJSON latlngs),
                         area_m2 = js_round area,
                         building.lat = js_round (latlng.lat center * 10000) / 10000,
                         lon = js_round (latlng.lng center * 10000) / 10000,
                         distance_km = map_option (\<lambda>d. js_round (d * 100) / 100) dist,
                         isCustom = True,
                         label = lbl,
                         solar = None \<rparr>;
                   next = hook_state.buildings st @ [b]
               in (Some b, persist ok next (st\<lparr> hook_state.buildings := next \<rparr>)))))"

section \<open>Solar estimate of a custom building (HomePageClient.tsx)\<close>

text \<open>The values the callback closes over: \<open>cf\<close>, \<open>usable\<close>, \<open>eff\<close>, \<open>price\<close>.\<close>

record assumptions =
  cf :: real
  usable :: real
  eff :: real
  price :: real

definition assumptions_of :: "totals \<Rightarrow> int \<Rightarrow> int \<Rightarrow> real \<Rightarrow> assumptions" where
  "assumptions_of t usablePct panelEff elecPriceQ =
     \<lparr> cf = js_or (totals.capacity_factor t) 0.168,
       usable = js_or (of_int usablePct) 65 / 100,
       eff = js_or (of_int panelEff) 200,
       price = js_or elecPriceQ 0.12 \<rparr>"

text \<open>The local constants of the callback, one definition each, in the order of the code.\<close>

definition usableArea :: "assumptions \<Rightarrow> building \<Rightarrow> real" where
  "usableArea p cb = area_m2 cb * usable p"

definition capacityKw :: "assumptions \<Rightarrow> building \<Rightarrow> real" where
  "capacityKw p cb = usableArea p cb * eff p / 1000"

definition annualKwh :: "assumptions \<Rightarrow> building \<Rightarrow> real" where
  "annualKwh p cb = capacityKw p cb * 8760 * cf p"

definition grossCost :: "assumptions \<Rightarrow> building \<Rightarrow> real" where
  "grossCost p cb = capacityKw p cb * 1000 * 1.40"

definition itcSavings :: "assumptions \<Rightarrow> building \<Rightarrow> real" where
  "itcSavings p cb = grossCost p cb * 0.30"

definition installCost :: "assumptions \<Rightarrow> building \<Rightarrow> real" where
  "installCost p cb = grossCost p cb - itcSavings p cb"

definition annualRevenue :: "assumptions \<Rightarrow> building \<Rightarrow> real" where
  "annualRevenue p cb = annualKwh p cb * price p"

definition annualOm :: "assumptions \<Rightarrow> building \<Rightarrow> real" where
  "annualOm p cb = capacityKw p cb * 15"

definition payback :: "assumptions \<Rightarrow> building \<Rightarrow> real" where
  "payback p cb =
     (if annualRevenue p cb - annualOm p cb > 0
      then installCost p cb / (annualRevenue p cb - annualOm p cb)
      else 999)"

definition co2Rate :: real where
  "co2Rate = 0.386"

text \<open>The callback: the building with its \<open>solar\<close> object.\<close>

definition customWithSolar :: "assumptions \<Rightarrow> building \<Rightarrow> building" where
  "customWithSolar p cb =
     cb\<lparr> solar := Some
       \<lparr> usable_area_m2 = js_round (usableArea p cb),
         solar.capacity_kw = js_round (capacityKw p cb * 10) / 10,
         solar.capacity_mw = js_round (capacityKw p cb / 100) / 10,
         annual_kwh = js_round (annualKwh p cb),
         solar.annual_mwh = js_round (annualKwh p cb / 100) / 10,
         solar.capacity_factor = cf p,
         solar.annual_revenue = js_round (annualRevenue p cb),
         solar.gross_install_cost = js_round (grossCost p cb),
         solar.itc_savings = js_round (itcSavings p cb),
         solar.install_cost = js_round (installCost p cb),
         solar.annual_om = js_round (annualOm p cb),
         solar.payback_years = js_round (payback p cb * 10) / 10,
         solar.npv_25yr = 0,
         solar.co2_avoided_tons = js_round (annualKwh p cb * co2Rate / 1000 * 10) / 10,
         solar.co2_avoided_lifetime_tons = js_round (annualKwh p cb * 25 * co2Rate / 1000),
         solar.homes_powered = js_round (annualKwh p cb / 10500),
         solar.lifetime_mwh = js_round (annualKwh p cb * 25 / 1000),
         cost_per_watt = 1.40,
         itc_rate = 0.30,
         discount_rate = 0.06,
         degradation_rate = 0.005 \<rparr> \<rparr>"

section \<open>The example of the equations panel (EquationsPanel.tsx)\<close>

text \<open>The props; \<open>costPerWatt\<close> and \<open>itcRate\<close> are optional and default to 1.40 and 0.30.\<close>

record equations_props =
  usablePct :: real
  panelEff :: real
  elecPrice :: real
  capacityFactor :: real
  costPerWatt :: "real option"
  itcRate :: "real option"

definition example_area :: real where
  "example_area = 10000"

definition example_usable :: "equations_props \<Rightarrow> real" where
  "example_usable q = example_area * (usablePct q / 100)"

definition example_capacity :: "equations_props \<Rightarrow> real" where
  "example_capacity q = example_usable q * panelEff q / 1000"

definition example_energy :: "equations_props \<Rightarrow> real" where
  "example_energy q = example_capacity q * 8760 * capacityFactor q"

definition example_revenue :: "equations_props \<Rightarrow> real" where
  "example_revenue q = example_energy q * elecPrice q"

definition example_grossCost :: "equations_props \<Rightarrow> real" where
  "example_grossCost q =
     example_capacity q * 1000 * (case costPerWatt q of None \<Rightarrow> 1.40 | Some c \<Rightarrow> c)"

definition example_itcCredit :: "equations_props \<Rightarrow> real" where
  "example_itcCredit q =
     example_grossCost q * (case itcRate q of None \<Rightarrow> 0.30 | Some r \<Rightarrow> r)"

definition example_netCost :: "equations_props \<Rightarrow> real" where
  "example_netCost q = example_grossCost q - example_itcCredit q"

text \<open>The panel divides without a guard: \<open>None\<close> is the non-finite quotient by zero.\<close>

definition example_payback :: "equations_props \<Rightarrow> real option" where
  "example_payback q =
     (if example_revenue q = 0 then None
      else Some (example_netCost q / example_revenue q))"

section \<open>The estimate in the words of the specification\<close>











section \<open>Totals (useHiddenBuildings.ts)\<close>

text \<open>\<open>b.solar?.f || 0\<close>: zero when the building has no \<open>solar\<close> object.\<close>

definition solar_or0 :: "(solar \<Rightarrow> real) \<Rightarrow> building \<Rightarrow> real" where
  "solar_or0 f b = (case solar b of None \<Rightarrow> 0 | Some s \<Rightarrow> js_or (f s) 0)"

text \<open>\<open>buildings.reduce((s, b) => s + g(b), 0)\<close>.\<close>

definition reduce_sum :: "(building \<Rightarrow> real) \<Rightarrow> building list \<Rightarrow> real" where
  "reduce_sum g bs = foldl (\<lambda>s b. s + g b) 0 bs"

definition netAnnual :: "building list \<Rightarrow> real" where
  "netAnnual bs =
     reduce_sum (solar_or0 solar.annual_revenue) bs - reduce_sum (solar_or0 solar.annual_om) bs"

definition totals_payback :: "building list \<Rightarrow> real" where
  "totals_payback bs =
     (if netAnnual bs > 0
      then reduce_sum (solar_or0 solar.install_cost) bs / netAnnual bs
      else 999)"

definition recalcTotals :: "building list \<Rightarrow> totals option \<Rightarrow> totals option" where
  "recalcTotals bs originalTotals =
     (case originalTotals of
        None \<Rightarrow> originalTotals
      | Some t \<Rightarrow>
          if length bs = 0 then originalTotals
          else Some (t
            \<lparr> building_count := real (length bs),
              total_roof_area_m2 := js_round (reduce_sum (\<lambda>b. js_or (area_m2 b) 0) bs),
              totals.capacity_kw :=
                js_round (reduce_sum (solar_or0 solar.capacity_kw) bs * 10) / 10,
              totals.capacity_mw :=
                js_round (reduce_sum (solar_or0 solar.capacity_kw) bs / 100) / 10,
              totals.annual_mwh :=
                js_round (reduce_sum (solar_or0 solar.annual_mwh) bs * 10) / 10,
              totals.annual_revenue :=
                js_round (reduce_sum (solar_or0 solar.annual_revenue) bs),
              totals.gross_install_cost :=
                js_round (reduce_sum (solar_or0 solar.gross_install_cost) bs),
              totals.itc_savings := js_round (reduce_sum (solar_or0 solar.itc_savings) bs),
              totals.install_cost := js_round (reduce_sum (solar_or0 solar.install_cost) bs),
              totals.annual_om := js_round (reduce_sum (solar_or0 solar.annual_om) bs),
              totals.payback_years := js_round (totals_payback bs * 10) / 10,
              totals.npv_25yr := js_round (reduce_sum (solar_or0 solar.npv_25yr) bs),
              totals.co2_avoided_tons :=
                js_round (reduce_sum (solar_or0 solar.co2_avoided_tons) bs * 10) / 10,
              totals.co2_avoided_lifetime_tons :=
                js_round (reduce_sum (solar_or0 solar.co2_avoided_lifetime_tons) bs),
              totals.homes_powered := js_round (reduce_sum (solar_or0 solar.homes_powered) bs),
              totals.lifetime_mwh := js_round (reduce_sum (solar_or0 solar.lifetime_mwh) bs) \<rparr>))"

section \<open>Auxiliary definitions\<close>


text \<open>The term that one round of the shoelace loop adds.\<close>

definition cross :: "(real \<times> real) list \<Rightarrow> nat \<Rightarrow> real" where
  "cross pts k =
     fst (pts ! k) * snd (pts ! ((k + 1) mod length pts))
       - fst (pts ! ((k + 1) mod length pts)) * snd (pts ! k)"

text \<open>A building whose \<open>npv_25yr\<close> is replaced, as the server would have filled it.\<close>

definition with_npv :: "real \<Rightarrow> building \<Rightarrow> building" where
  "with_npv v b = b\<lparr> solar := map_option (\<lambda>s. s\<lparr> solar.npv_25yr := v \<rparr>) (solar b) \<rparr>"

section \<open>Sample inputs\<close>

text \<open>A custom building of a given area, without its estimate.\<close>

definition sample_building :: "real \<Rightarrow> building" where
  "sample_building ar =
     \<lparr> bid = ''custom_1'', geometry = None, area_m2 = ar, building.lat = 33.64,
       lon = - 84.43, distance_km = Some 1.5, isCustom = True, label = None, solar = None \<rparr>"

text \<open>Assumptions with a given capacity factor and usable fraction.\<close>

definition sample_assumptions :: "real \<Rightarrow> real \<Rightarrow> assumptions" where
  "sample_assumptions c u = \<lparr> cf = c, usable = u, eff = 200, price = 0.12 \<rparr>"

text \<open>Totals of an airport with two buildings, with a given capacity factor and payback.\<close>

definition sample_totals :: "real \<Rightarrow> real \<Rightarrow> totals" where
  "sample_totals c pb =
     \<lparr> building_count = 2, total_roof_area_m2 = 20000, totals.capacity_kw = 2600,
       totals.capacity_mw = 2.6, totals.annual_mwh = 3598.6, totals.annual_revenue = 431833,
       totals.gross_install_cost = 3640000, totals.itc_savings = 1092000,
       totals.install_cost = 2548000, totals.annual_om = 39000, totals.payback_years = pb,
       totals.npv_25yr = 2000000, totals.co2_avoided_tons = 1389.1,
       totals.co2_avoided_lifetime_tons = 32700, totals.homes_powered = 343,
       totals.lifetime_mwh = 84700, totals.capacity_factor = c \<rparr>"


text \<open>The building of 10000 square metres with its estimate and a given \<open>npv_25yr\<close>.\<close>

definition sample_estimated :: "real \<Rightarrow> building" where
  "sample_estimated v =
     with_npv v (customWithSolar (sample_assumptions 0.158 0.65) (sample_building 10000))"

text \<open>A rectangle across the equator, and a list that repeats two points.\<close>

definition sample_rect :: "latlng list" where
  "sample_rect =
     [\<lparr> latlng.lat = - 0.001, lng = 0 \<rparr>, \<lparr> latlng.lat = - 0.001, lng = 0.002 \<rparr>,
      \<lparr> latlng.lat = 0.001, lng = 0.002 \<rparr>, \<lparr> latlng.lat = 0.001, lng = 0 \<rparr>]"

definition sample_flat :: "latlng list" where
  "sample_flat =
     [\<lparr> latlng.lat = 33.64, lng = - 84.43 \<rparr>, \<lparr> latlng.lat = 33.65, lng = - 84.42 \<rparr>,
      \<lparr> latlng.lat = 33.64, lng = - 84.43 \<rparr>, \<lparr> latlng.lat = 33.65, lng = - 84.42 \<rparr>]"

text \<open>A hook state that already holds one building.\<close>

definition sample_state :: hook_state where
  "sample_state =
     \<lparr> hook_state.buildings = [sample_building 1200],
       stored = Some [sample_building 1200] \<rparr>"

section \<open>Auxiliary facts\<close>

lemmas chain_defs = usableArea_def capacityKw_def annualKwh_def grossCost_def itcSavings_def
  installCost_def annualRevenue_def annualOm_def



lemmas sample_defs = sample_building_def sample_assumptions_def

lemma reduce_sum_foldl: "foldl (\<lambda>s b. s + g b) a bs = a + sum_list (map g bs)"
  by (induction bs arbitrary: a) (simp_all add: add.assoc)

lemma reduce_sum_sum_list: "reduce_sum g bs = sum_list (map g bs)"
  by (simp add: reduce_sum_def reduce_sum_foldl)

lemma js_round_mono: "v \<le> w \<Longrightarrow> js_round v \<le> js_round w"
  by (simp add: js_round_def floor_mono)

lemma js_round_nonpos: "v \<le> 0 \<Longrightarrow> js_round v \<le> 0"
proof -
  assume "v \<le> 0"
  then have "\<lfloor>v + 1 / 2\<rfloor> \<le> 0"
    by (simp add: floor_le_iff)
  then show ?thesis
    unfolding js_round_def by linarith
qed

lemma sample_estimated_solar:
  "solar (sample_estimated v) = Some
        \<lparr> usable_area_m2 = 6500, solar.capacity_kw = 1300, solar.capacity_mw = 1.3,
          annual_kwh = 1799304, solar.annual_mwh = 1799.3, solar.capacity_factor = 0.158,
          solar.annual_revenue = 215916, solar.gross_install_cost = 1820000,
          solar.itc_savings = 546000, solar.install_cost = 1274000,
          solar.annual_om = 19500, solar.payback_years = 6.5, solar.npv_25yr = v,
          solar.co2_avoided_tons = 694.5, solar.co2_avoided_lifetime_tons = 17363,
          solar.homes_powered = 171, solar.lifetime_mwh = 44983, cost_per_watt = 1.40,
          itc_rate = 0.30, discount_rate = 0.06, degradation_rate = 0.005 \<rparr>"
  by (simp add: sample_estimated_def with_npv_def customWithSolar_def js_round_def payback_def
      co2Rate_def chain_defs sample_defs)


lemma recalcTotals_nonempty:
  "bs \<noteq> [] \<Longrightarrow> recalcTotals bs (Some t) = Some (t
            \<lparr> building_count := real (length bs),
              total_roof_area_m2 := js_round (sum_list (map area_m2 bs)),
              totals.capacity_kw :=
                js_round (sum_list (map (solar_or0 solar.capacity_kw) bs) * 10) / 10,
              totals.capacity_mw :=
                js_round (sum_list (map (solar_or0 solar.capacity_kw) bs) / 100) / 10,
              totals.annual_mwh :=
                js_round (sum_list (map (solar_or0 solar.annual_mwh) bs) * 10) / 10,
              totals.annual_revenue :=
                js_round (sum_list (map (solar_or0 solar.annual_revenue) bs)),
              totals.gross_install_cost :=
                js_round (sum_list (map (solar_or0 solar.gross_install_cost) bs)),
              totals.itc_savings := js_round (sum_list (map (solar_or0 solar.itc_savings) bs)),
              totals.install_cost := js_round (sum_list (map (solar_or0 solar.install_cost) bs)),
              totals.annual_om := js_round (sum_list (map (solar_or0 solar.annual_om) bs)),
              totals.payback_years := js_round (totals_payback bs * 10) / 10,
              totals.npv_25yr := js_round (sum_list (map (solar_or0 solar.npv_25yr) bs)),
              totals.co2_avoided_tons :=
                js_round (sum_list (map (solar_or0 solar.co2_avoided_tons) bs) * 10) / 10,
              totals.co2_avoided_lifetime_tons :=
                js_round (sum_list (map (solar_or0 solar.co2_avoided_lifetime_tons) bs)),
              totals.homes_powered := js_round (sum_list (map (solar_or0 solar.homes_powered) bs)),
              totals.lifetime_mwh := js_round (sum_list (map (solar_or0 solar.lifetime_mwh) bs)) \<rparr>)"
  by (simp add: recalcTotals_def reduce_sum_sum_list js_or_def cong: map_cong)

lemma totals_payback_sums:
  "totals_payback bs =
     (if sum_list (map (solar_or0 solar.annual_revenue) bs)
           - sum_list (map (solar_or0 solar.annual_om) bs) > 0
      then sum_list (map (solar_or0 solar.install_cost) bs)
             / (sum_list (map (solar_or0 solar.annual_revenue) bs)
                 - sum_list (map (solar_or0 solar.annual_om) bs))
      else 999)"
  by (simp add: totals_payback_def netAnnual_def reduce_sum_sum_list)

lemma shoelace_sum: "shoelace pts i a = a + (\<Sum>k = i..<length pts. cross pts k)"
proof (induction pts i a rule: shoelace.induct)
  case (1 pts i area)
  show ?case
  proof (cases "i < length pts")
    case True
    have "shoelace pts i area = shoelace pts (i + 1) (area + cross pts i)"
      using True by (subst shoelace.simps) (simp add: cross_def Let_def add_diff_eq)
    also have "\<dots> = area + cross pts i + (\<Sum>k = i + 1..<length pts. cross pts k)"
      using "1.IH" [OF True refl] by (simp add: cross_def add_diff_eq)
    also have "\<dots> = area + (\<Sum>k = i..<length pts. cross pts k)"
      using True by (simp add: sum.atLeast_Suc_lessThan)
    finally show ?thesis .
  next
    case False
    then show ?thesis
      by (subst shoelace.simps) simp
  qed
qed

lemma project_nth:
  "k < length ps \<Longrightarrow> project ps c ! k =
     ((latlng.lng (ps ! k) - latlng.lng (ps ! 0)) * (pi / 180) * 6371000 * c,
      (latlng.lat (ps ! k) - latlng.lat (ps ! 0)) * (pi / 180) * 6371000)"
  by (simp add: project_def)

lemma length_project: "length (project ps c) = length ps"
  by (simp add: project_def)

lemma cross_alg:
  fixes c :: real
  shows "(a * k * r * c) * (b * k * r) - (a' * k * r * c) * (b' * k * r)
           = c * (k * r)\<^sup>2 * (a * b - a' * b')"
  by (simp add: power2_eq_square algebra_simps)

lemma cross_project:
  assumes "k < length ps"
  shows "cross (project ps c) k =
     c * ((pi / 180) * 6371000)\<^sup>2 *
       ((latlng.lng (ps ! k) - latlng.lng (ps ! 0))
          * (latlng.lat (ps ! ((k + 1) mod length ps)) - latlng.lat (ps ! 0))
        - (latlng.lng (ps ! ((k + 1) mod length ps)) - latlng.lng (ps ! 0))
          * (latlng.lat (ps ! k) - latlng.lat (ps ! 0)))"
proof -
  have "0 < length ps"
    using assms by auto
  then have j: "(k + 1) mod length ps < length ps"
    by simp
  show ?thesis
    unfolding cross_def length_project project_nth [OF assms] project_nth [OF j]
      fst_conv snd_conv
    by (rule cross_alg)
qed

lemma three_of_few:
  assumes "card S < 3" and "finite S" and "u \<in> S" and "v \<in> S" and "w \<in> S"
  shows "u = v \<or> u = w \<or> v = w"
proof (rule ccontr)
  assume "\<not> (u = v \<or> u = w \<or> v = w)"
  then have "card {u, v, w} = 3"
    by simp
  moreover have "card {u, v, w} \<le> card S"
    using assms by (intro card_mono) auto
  ultimately show False
    using assms by simp
qed

lemma cross_project_few:
  assumes "card (set ps) < 3" and "k < length ps"
  shows "cross (project ps c) k = 0"
proof -
  have "0 < length ps"
    using assms by auto
  then have j: "(k + 1) mod length ps < length ps"
    by simp
  have "ps ! k = ps ! ((k + 1) mod length ps) \<or> ps ! k = ps ! 0
          \<or> ps ! ((k + 1) mod length ps) = ps ! 0"
    using assms j \<open>0 < length ps\<close> by (intro three_of_few [of "set ps"]) simp_all
  then show ?thesis
    using assms by (auto simp add: cross_project)
qed

lemma shoelace_project_scale:
  "shoelace (project ps c) 0 0 = c * shoelace (project ps 1) 0 0"
  by (simp add: shoelace_sum length_project cross_project sum_distrib_left mult.assoc)




lemma area_scaled:
  "calcGeodesicArea ps =
     (if length ps < 3 then 0
      else \<bar>cos ((meanLat ps * pi) / 180)\<bar> * \<bar>shoelace (project ps 1) 0 0 / 2\<bar>)"
  by (simp add: calcGeodesicArea_def shoelace_project_scale [of ps "cos _"] abs_mult)


lemma upt4: "{0..<4::nat} = {0, 1, 2, 3}"
  by auto

lemma shoelace_rect: "shoelace [(0, 0), (w, 0), (w, h), (0, h)] 0 0 = 2 * w * h"
  by (simp add: shoelace_sum cross_def upt4)

lemma sample_rect_project:
  "project sample_rect 1 =
     [(0, 0), (0.002 * (pi / 180) * 6371000, 0),
      (0.002 * (pi / 180) * 6371000, 0.002 * (pi / 180) * 6371000),
      (0, 0.002 * (pi / 180) * 6371000)]"
  by (simp add: project_def sample_rect_def)

lemma sample_rect_area: "calcGeodesicArea sample_rect = (0.002 * (pi / 180) * 6371000)\<^sup>2"
proof -
  have "meanLat sample_rect = 0"
    by (simp add: meanLat_def sample_rect_def)
  moreover have "\<not> length sample_rect < 3"
    by (simp add: sample_rect_def)
  ultimately show ?thesis
    unfolding area_scaled sample_rect_project shoelace_rect
    by (simp add: power2_eq_square)
qed

lemma sample_rect_big: "20000 < calcGeodesicArea sample_rect"
proof -
  have "(20000::real) < 141.5\<^sup>2"
    by (simp add: power2_eq_square)
  moreover have "141.5 \<le> 0.002 * (pi / 180) * 6371000"
    using pi_ge_two by simp
  then have "141.5\<^sup>2 \<le> (0.002 * (pi / 180) * 6371000)\<^sup>2"
    by (intro power_mono) simp_all
  ultimately show ?thesis
    unfolding sample_rect_area by (rule less_le_trans)
qed

lemma sample_flat_area: "calcGeodesicArea sample_flat = 0"
proof -
  have "card (set sample_flat) < 3"
    unfolding List.card_set by (simp add: sample_flat_def)
  then show ?thesis
    by (simp add: calcGeodesicArea_def shoelace_sum length_project cross_project_few)
qed

lemma ring_closed:
  assumes "latlngs \<noteq> []"
  shows "\<exists>ring. latlngsToGeoJSON latlngs = \<lparr> gtype = ''Polygon'', coordinates = [ring] \<rparr> \<and>
           ring \<noteq> [] \<and> hd ring = last ring \<and>
           take (length latlngs) ring = map (\<lambda>p. [latlng.lng p, latlng.lat p]) latlngs"
proof -
  define ring where "ring = map (\<lambda>p. [latlng.lng p, latlng.lat p]) latlngs"
  have n: "ring \<noteq> []" "0 < length ring" "length ring = length latlngs"
    using assms by (simp_all add: ring_def)
  have h: "hd ring = [ring ! 0 ! 0, ring ! 0 ! 1]"
    using assms by (cases latlngs) (simp_all add: ring_def)
  have l: "last ring = [ring ! (length ring - 1) ! 0, ring ! (length ring - 1) ! 1]"
    using assms by (simp add: ring_def last_conv_nth)
  show ?thesis
  proof (cases "ring ! 0 ! 0 \<noteq> ring ! (length ring - 1) ! 0 \<or>
                ring ! 0 ! 1 \<noteq> ring ! (length ring - 1) ! 1")
    case True
    then have "latlngsToGeoJSON latlngs =
        \<lparr> gtype = ''Polygon'', coordinates = [ring @ [[ring ! 0 ! 0, ring ! 0 ! 1]]] \<rparr>"
      using n unfolding latlngsToGeoJSON_def ring_def [symmetric] Let_def by simp
    moreover have "hd (ring @ [[ring ! 0 ! 0, ring ! 0 ! 1]]) = last (ring @ [[ring ! 0 ! 0, ring ! 0 ! 1]])"
      using n h by simp
    moreover have "take (length latlngs) (ring @ [[ring ! 0 ! 0, ring ! 0 ! 1]]) = ring"
      using n by simp
    ultimately show ?thesis
      unfolding ring_def [symmetric] by simp
  next
    case False
    then have "latlngsToGeoJSON latlngs = \<lparr> gtype = ''Polygon'', coordinates = [ring] \<rparr>"
      unfolding latlngsToGeoJSON_def ring_def [symmetric] Let_def by simp
    moreover have "hd ring = last ring"
      using False h l by simp
    moreover have "take (length latlngs) ring = ring"
      using n by simp
    ultimately show ?thesis
      using n unfolding ring_def [symmetric] by simp
  qed
qed

lemma js_round_ge_1: "1 \<le> v \<Longrightarrow> 1 \<le> js_round v"
proof -
  assume "1 \<le> v"
  then have "1 \<le> \<lfloor>v + 1 / 2\<rfloor>"
    by (simp add: le_floor_iff)
  then show ?thesis
    unfolding js_round_def by linarith
qed

section \<open>The solar estimate\<close>



text \<open>
  C4, as stated, fails: with a capacity factor of zero in the totals the page falls back
  to 0.168 and the estimate of a building of 10000 square metres is not zero; a negative
  area gives negative metrics; and a negative capacity factor leaves capacity and costs
  positive.
\<close>

theorem zero_metrics_counterexample:
  "totals.capacity_factor (sample_totals 0 6.5) \<le> 0 \<and>
   map_option solar.capacity_kw
     (solar (customWithSolar (assumptions_of (sample_totals 0 6.5) 65 200 0.12) (sample_building 10000)))
     = Some 1300 \<and>
   map_option solar.annual_kwh
     (solar (customWithSolar (assumptions_of (sample_totals 0 6.5) 65 200 0.12) (sample_building 10000)))
     = Some 1913184 \<and>
   area_m2 (sample_building (- 10000)) \<le> 0 \<and>
   map_option solar.capacity_kw
     (solar (customWithSolar (sample_assumptions 0.158 0.65) (sample_building (- 10000))))
     = Some (- 1300) \<and>
   cf (sample_assumptions (- 0.1) 0.65) \<le> 0 \<and>
   map_option solar.install_cost
     (solar (customWithSolar (sample_assumptions (- 0.1) 0.65) (sample_building 10000)))
     = Some 1274000"
  by (simp add: customWithSolar_def assumptions_of_def js_or_def js_round_def chain_defs
      sample_defs sample_totals_def)

text \<open>
  C4, amended. A building of area zero gets an estimate whose metrics are all zero, with
  a payback of 999, whatever the assumptions, and nothing is raised. A capacity factor
  of zero in the totals is replaced by 0.168 before the estimate. When the capacity
  factor the estimate uses is negative, the area and usable fraction are not negative
  and the efficiency and price are positive, the payback is 999 and the reported energy,
  revenue, CO2 and homes powered are at most zero. The reported usable area, capacity,
  costs and O&M do not depend on the capacity factor.
\<close>

theorem zero_area_zero_metrics:
  "(area_m2 cb = 0 \<longrightarrow>
      solar (customWithSolar p cb) = Some
        \<lparr> usable_area_m2 = 0, solar.capacity_kw = 0, solar.capacity_mw = 0, annual_kwh = 0,
          solar.annual_mwh = 0, solar.capacity_factor = cf p, solar.annual_revenue = 0,
          solar.gross_install_cost = 0, solar.itc_savings = 0, solar.install_cost = 0,
          solar.annual_om = 0, solar.payback_years = 999, solar.npv_25yr = 0,
          solar.co2_avoided_tons = 0, solar.co2_avoided_lifetime_tons = 0,
          solar.homes_powered = 0, solar.lifetime_mwh = 0, cost_per_watt = 1.40,
          itc_rate = 0.30, discount_rate = 0.06, degradation_rate = 0.005 \<rparr>) \<and>
   cf (assumptions_of t pct w_m2 usd) =
     (if totals.capacity_factor t = 0 then 0.168 else totals.capacity_factor t) \<and>
   (0 \<le> area_m2 cb \<and> 0 \<le> usable p \<and> 0 < eff p \<and> 0 < price p \<and> cf p < 0 \<longrightarrow>
      (\<exists>s. solar (customWithSolar p cb) = Some s \<and>
           solar.payback_years s = 999 \<and> annual_kwh s \<le> 0 \<and> solar.annual_mwh s \<le> 0 \<and>
           solar.annual_revenue s \<le> 0 \<and> solar.co2_avoided_tons s \<le> 0 \<and>
           solar.co2_avoided_lifetime_tons s \<le> 0 \<and> solar.homes_powered s \<le> 0 \<and>
           solar.lifetime_mwh s \<le> 0)) \<and>
   (\<exists>s s'. solar (customWithSolar p cb) = Some s \<and>
           solar (customWithSolar (p\<lparr> cf := c \<rparr>) cb) = Some s' \<and>
           usable_area_m2 s' = usable_area_m2 s \<and>
           solar.capacity_kw s' = solar.capacity_kw s \<and>
           solar.capacity_mw s' = solar.capacity_mw s \<and>
           solar.gross_install_cost s' = solar.gross_install_cost s \<and>
           solar.itc_savings s' = solar.itc_savings s \<and>
           solar.install_cost s' = solar.install_cost s \<and>
           solar.annual_om s' = solar.annual_om s)"
proof (intro conjI impI)
  assume "area_m2 cb = 0"
  then show "solar (customWithSolar p cb) = Some
        \<lparr> usable_area_m2 = 0, solar.capacity_kw = 0, solar.capacity_mw = 0, annual_kwh = 0,
          solar.annual_mwh = 0, solar.capacity_factor = cf p, solar.annual_revenue = 0,
          solar.gross_install_cost = 0, solar.itc_savings = 0, solar.install_cost = 0,
          solar.annual_om = 0, solar.payback_years = 999, solar.npv_25yr = 0,
          solar.co2_avoided_tons = 0, solar.co2_avoided_lifetime_tons = 0,
          solar.homes_powered = 0, solar.lifetime_mwh = 0, cost_per_watt = 1.40,
          itc_rate = 0.30, discount_rate = 0.06, degradation_rate = 0.005 \<rparr>"
    by (simp add: customWithSolar_def chain_defs payback_def js_round_def)
next
  show "cf (assumptions_of t pct w_m2 usd) =
     (if totals.capacity_factor t = 0 then 0.168 else totals.capacity_factor t)"
    by (simp add: assumptions_of_def js_or_def)
next
  assume h: "0 \<le> area_m2 cb \<and> 0 \<le> usable p \<and> 0 < eff p \<and> 0 < price p \<and> cf p < 0"
  then have c: "0 \<le> capacityKw p cb"
    by (simp add: chain_defs)
  with h have k: "annualKwh p cb \<le> 0"
    by (simp add: annualKwh_def mult_nonneg_nonpos)
  with h have r: "annualRevenue p cb \<le> 0"
    by (simp add: annualRevenue_def mult_nonpos_nonneg)
  from c have "0 \<le> annualOm p cb"
    by (simp add: annualOm_def)
  with r have n: "\<not> annualRevenue p cb - annualOm p cb > 0"
    by simp
  have "js_round (annualKwh p cb) \<le> 0"
    using k by (rule js_round_nonpos)
  moreover have "js_round (annualKwh p cb / 100) \<le> 0"
    using k by (intro js_round_nonpos) (simp add: divide_le_0_iff)
  moreover have "js_round (annualRevenue p cb) \<le> 0"
    using r by (rule js_round_nonpos)
  moreover have "js_round (annualKwh p cb * co2Rate / 1000 * 10) \<le> 0"
    using k by (intro js_round_nonpos) (simp add: co2Rate_def mult_le_0_iff)
  moreover have "js_round (annualKwh p cb * 25 * co2Rate / 1000) \<le> 0"
    using k by (intro js_round_nonpos) (simp add: co2Rate_def mult_le_0_iff)
  moreover have "js_round (annualKwh p cb / 10500) \<le> 0"
    using k by (intro js_round_nonpos) (simp add: divide_le_0_iff)
  moreover have "js_round (annualKwh p cb * 25 / 1000) \<le> 0"
    using k by (intro js_round_nonpos) (simp add: mult_le_0_iff)
  ultimately show "\<exists>s. solar (customWithSolar p cb) = Some s \<and>
           solar.payback_years s = 999 \<and> annual_kwh s \<le> 0 \<and> solar.annual_mwh s \<le> 0 \<and>
           solar.annual_revenue s \<le> 0 \<and> solar.co2_avoided_tons s \<le> 0 \<and>
           solar.co2_avoided_lifetime_tons s \<le> 0 \<and> solar.homes_powered s \<le> 0 \<and>
           solar.lifetime_mwh s \<le> 0"
    using n by (simp add: customWithSolar_def payback_def js_round_def divide_le_0_iff)
next
  show "\<exists>s s'. solar (customWithSolar p cb) = Some s \<and>
           solar (customWithSolar (p\<lparr> cf := c \<rparr>) cb) = Some s' \<and>
           usable_area_m2 s' = usable_area_m2 s \<and>
           solar.capacity_kw s' = solar.capacity_kw s \<and>
           solar.capacity_mw s' = solar.capacity_mw s \<and>
           solar.gross_install_cost s' = solar.gross_install_cost s \<and>
           solar.itc_savings s' = solar.itc_savings s \<and>
           solar.install_cost s' = solar.install_cost s \<and>
           solar.annual_om s' = solar.annual_om s"
    by (simp add: customWithSolar_def chain_defs)
qed

theorem zero_area_zero_metrics_witness:
  "area_m2 (sample_building 0) = 0 \<and>
   map_option solar.capacity_kw
     (solar (customWithSolar (sample_assumptions 0.158 0.65) (sample_building 0))) = Some 0 \<and>
   map_option solar.payback_years
     (solar (customWithSolar (sample_assumptions 0.158 0.65) (sample_building 0))) = Some 999 \<and>
   cf (sample_assumptions (- 0.1) 0.65) < 0 \<and>
   map_option solar.payback_years
     (solar (customWithSolar (sample_assumptions (- 0.1) 0.65) (sample_building 10000)))
     = Some 999"
  using zero_area_zero_metrics
      [of "sample_building 0" "sample_assumptions 0.158 0.65" "sample_totals 0 6.5" 65 200
          "0.12" 0]
    zero_area_zero_metrics
      [of "sample_building 10000" "sample_assumptions (- 0.1) 0.65" "sample_totals 0 6.5" 65
          200 "0.12" 0]
  by (auto simp add: sample_defs)

text \<open>
  C7, as stated, fails on the reported fields, which are rounded: for a building of one
  square metre, raising the usable fraction from 0.65 to 0.66 changes none of
  \<open>capacity_kw\<close>, \<open>annual_mwh\<close> and \<open>annual_revenue\<close>. With a negative capacity
  factor the energy before rounding even decreases.
\<close>

theorem usable_fraction_counterexample:
  "area_m2 (sample_building 1) > 0 \<and> (0.65::real) < 0.66 \<and>
   map_option solar.capacity_kw (solar (customWithSolar (sample_assumptions 0.168 0.65) (sample_building 1)))
   = map_option solar.capacity_kw (solar (customWithSolar (sample_assumptions 0.168 0.66) (sample_building 1))) \<and>
   map_option solar.annual_mwh (solar (customWithSolar (sample_assumptions 0.168 0.65) (sample_building 1)))
   = map_option solar.annual_mwh (solar (customWithSolar (sample_assumptions 0.168 0.66) (sample_building 1))) \<and>
   map_option solar.annual_revenue (solar (customWithSolar (sample_assumptions 0.168 0.65) (sample_building 1)))
   = map_option solar.annual_revenue (solar (customWithSolar (sample_assumptions 0.168 0.66) (sample_building 1))) \<and>
   annualKwh (sample_assumptions (- 0.1) 0.66) (sample_building 1)
     < annualKwh (sample_assumptions (- 0.1) 0.65) (sample_building 1)"
  by (simp add: customWithSolar_def js_round_def chain_defs sample_defs)

text \<open>
  C7, amended. For a building of positive area and positive capacity factor, panel
  efficiency and price, a strictly larger usable fraction gives a strictly larger
  capacity, first-year energy and revenue before rounding, and reported
  \<open>capacity_kw\<close>, \<open>annual_mwh\<close> and \<open>annual_revenue\<close> that do not decrease.
\<close>

theorem usable_fraction_monotone:
  assumes "0 < area_m2 cb" and "0 < eff p" and "0 < cf p" and "0 < price p"
    and "usable p < u"
  shows "capacityKw p cb < capacityKw (p\<lparr> usable := u \<rparr>) cb \<and>
         annualKwh p cb < annualKwh (p\<lparr> usable := u \<rparr>) cb \<and>
         annualRevenue p cb < annualRevenue (p\<lparr> usable := u \<rparr>) cb \<and>
         (\<exists>s s'. solar (customWithSolar p cb) = Some s \<and>
                 solar (customWithSolar (p\<lparr> usable := u \<rparr>) cb) = Some s' \<and>
                 solar.capacity_kw s \<le> solar.capacity_kw s' \<and>
                 solar.annual_mwh s \<le> solar.annual_mwh s' \<and>
                 solar.annual_revenue s \<le> solar.annual_revenue s')"
proof -
  have a: "usableArea p cb < usableArea (p\<lparr> usable := u \<rparr>) cb"
    using assms by (simp add: usableArea_def)
  then have c: "capacityKw p cb < capacityKw (p\<lparr> usable := u \<rparr>) cb"
    using assms by (simp add: capacityKw_def divide_strict_right_mono)
  then have k: "annualKwh p cb < annualKwh (p\<lparr> usable := u \<rparr>) cb"
    using assms by (simp add: annualKwh_def)
  then have r: "annualRevenue p cb < annualRevenue (p\<lparr> usable := u \<rparr>) cb"
    using assms by (simp add: annualRevenue_def)
  have "js_round (capacityKw p cb * 10) \<le> js_round (capacityKw (p\<lparr> usable := u \<rparr>) cb * 10)"
    using c by (intro js_round_mono) simp
  moreover have "js_round (annualKwh p cb / 100)
      \<le> js_round (annualKwh (p\<lparr> usable := u \<rparr>) cb / 100)"
    using k by (intro js_round_mono) (simp add: divide_right_mono)
  moreover have "js_round (annualRevenue p cb)
      \<le> js_round (annualRevenue (p\<lparr> usable := u \<rparr>) cb)"
    using r by (intro js_round_mono) simp
  ultimately show ?thesis
    using c k r by (simp add: customWithSolar_def divide_right_mono)
qed

theorem usable_fraction_monotone_witness:
  "capacityKw (sample_assumptions 0.158 0.65) (sample_building 10000)
     < capacityKw (sample_assumptions 0.158 0.70) (sample_building 10000) \<and>
   annualRevenue (sample_assumptions 0.158 0.65) (sample_building 10000)
     < annualRevenue (sample_assumptions 0.158 0.70) (sample_building 10000)"
  using usable_fraction_monotone [of "sample_building 10000" "sample_assumptions 0.158 0.65" "0.70"]
  by (simp add: sample_defs)

section \<open>The totals\<close>

text \<open>
  C2, as stated, fails for the net present value: two buildings with the same net cost,
  revenue and O&M but different \<open>npv_25yr\<close> give totals with different
  \<open>npv_25yr\<close>, and two buildings of 500000 each give 1000000: the total is the sum of
  the buildings' values.
\<close>

theorem totals_npv_counterexample:
  "solar_or0 solar.install_cost (sample_estimated 0)
     = solar_or0 solar.install_cost (sample_estimated 500000) \<and>
   solar_or0 solar.annual_revenue (sample_estimated 0)
     = solar_or0 solar.annual_revenue (sample_estimated 500000) \<and>
   solar_or0 solar.annual_om (sample_estimated 0)
     = solar_or0 solar.annual_om (sample_estimated 500000) \<and>
   map_option totals.npv_25yr
     (recalcTotals [sample_estimated 0] (Some (sample_totals 0.158 6.5))) = Some 0 \<and>
   map_option totals.npv_25yr
     (recalcTotals [sample_estimated 500000] (Some (sample_totals 0.158 6.5))) = Some 500000 \<and>
   map_option totals.npv_25yr
     (recalcTotals [sample_estimated 500000, sample_estimated 500000]
        (Some (sample_totals 0.158 6.5))) = Some 1000000"
  by (simp add: recalcTotals_nonempty solar_or0_def sample_estimated_solar js_or_def js_round_def)

text \<open>
  C2, amended. For a list that is not empty, the payback of the totals is derived again
  from the summed net cost, revenue and O&M (and rounded to one decimal), while
  \<open>npv_25yr\<close> of the totals is the rounded sum of the buildings' \<open>npv_25yr\<close>.
\<close>

theorem totals_payback_rederived:
  assumes "bs \<noteq> []"
  shows "map_option totals.payback_years (recalcTotals bs (Some t)) =
           Some (js_round
             ((if sum_list (map (solar_or0 solar.annual_revenue) bs)
                    - sum_list (map (solar_or0 solar.annual_om) bs) > 0
               then sum_list (map (solar_or0 solar.install_cost) bs)
                      / (sum_list (map (solar_or0 solar.annual_revenue) bs)
                          - sum_list (map (solar_or0 solar.annual_om) bs))
               else 999) * 10) / 10) \<and>
         map_option totals.npv_25yr (recalcTotals bs (Some t)) =
           Some (js_round (sum_list (map (solar_or0 solar.npv_25yr) bs)))"
  using assms by (simp add: recalcTotals_nonempty totals_payback_sums)

theorem totals_payback_rederived_witness:
  "[sample_estimated 500000, sample_estimated 500000] \<noteq> [] \<and>
   map_option totals.payback_years
     (recalcTotals [sample_estimated 500000, sample_estimated 500000]
        (Some (sample_totals 0.158 7))) = Some 6.5 \<and>
   map_option totals.npv_25yr
     (recalcTotals [sample_estimated 500000, sample_estimated 500000]
        (Some (sample_totals 0.158 7))) = Some 1000000"
  using totals_payback_rederived
    [of "[sample_estimated 500000, sample_estimated 500000]" "sample_totals 0.158 7"]
  by (simp add: solar_or0_def sample_estimated_solar js_or_def js_round_def)




section \<open>Geometry\<close>

text \<open>
  C6. A vertex list with fewer than three distinct points, the empty list included, has
  area zero: either it is shorter than three and the function returns at once, or every
  round of the loop adds zero. Every index the function reads is in range, so nothing is
  raised.
\<close>

theorem degenerate_polygon_zero_area:
  "length (remdups latlngs) < 3 \<Longrightarrow> calcGeodesicArea latlngs = 0"
  by (simp add: calcGeodesicArea_def shoelace_sum length_project cross_project_few
      length_remdups_card_conv)


theorem degenerate_polygon_zero_area_witness:
  "length (remdups sample_flat) < 3 \<and> length sample_flat = 4 \<and> calcGeodesicArea sample_flat = 0 \<and>
   calcGeodesicArea [] = 0"
  using degenerate_polygon_zero_area [of sample_flat] degenerate_polygon_zero_area [of "[]"]
  by (simp add: sample_flat_def)




section \<open>Adding a custom building\<close>

text \<open>
  C10. \<open>addBuilding\<close> rejects a vertex list with fewer than three points, or with a
  computed area below one square metre: it returns null and leaves the state (the list
  of buildings and the stored entry) as it was. Otherwise it appends exactly one
  building, whose polygon ring starts with the drawn vertices, is not empty and is
  closed (its first vertex equals its last), and whose area is at least one.
\<close>

theorem addBuilding_atomic:
  "(length latlngs < 3 \<or> calcGeodesicArea latlngs < 1 \<longrightarrow>
      addBuilding ctr nid ok latlngs lbl st = (None, st)) \<and>
   (\<not> (length latlngs < 3 \<or> calcGeodesicArea latlngs < 1) \<longrightarrow>
      (\<exists>b ring.
         addBuilding ctr nid ok latlngs lbl st =
           (Some b,
            st\<lparr> hook_state.buildings := hook_state.buildings st @ [b],
                stored := (if ok then Some (hook_state.buildings st @ [b]) else stored st) \<rparr>) \<and>
         geometry b = Some \<lparr> gtype = ''Polygon'', coordinates = [ring] \<rparr> \<and>
         ring \<noteq> [] \<and> hd ring = last ring \<and>
         take (length latlngs) ring = map (\<lambda>p. [latlng.lng p, latlng.lat p]) latlngs \<and>
         area_m2 b = js_round (calcGeodesicArea latlngs) \<and> 1 \<le> area_m2 b \<and>
         bid b = nid \<and> isCustom b \<and> label b = lbl))"
proof (intro conjI impI)
  assume "length latlngs < 3 \<or> calcGeodesicArea latlngs < 1"
  then show "addBuilding ctr nid ok latlngs lbl st = (None, st)"
    by (auto simp add: addBuilding_def Let_def)
next
  assume a: "\<not> (length latlngs < 3 \<or> calcGeodesicArea latlngs < 1)"
  then have "latlngs \<noteq> []"
    by auto
  from ring_closed [OF this] obtain ring where
    r: "latlngsToGeoJSON latlngs = \<lparr> gtype = ''Polygon'', coordinates = [ring] \<rparr>"
      "ring \<noteq> []" "hd ring = last ring"
      "take (length latlngs) ring = map (\<lambda>p. [latlng.lng p, latlng.lat p]) latlngs"
    by blast
  have g: "1 \<le> js_round (calcGeodesicArea latlngs)"
    using a by (intro js_round_ge_1) simp
  show "\<exists>b ring.
         addBuilding ctr nid ok latlngs lbl st =
           (Some b,
            st\<lparr> hook_state.buildings := hook_state.buildings st @ [b],
                stored := (if ok then Some (hook_state.buildings st @ [b]) else stored st) \<rparr>) \<and>
         geometry b = Some \<lparr> gtype = ''Polygon'', coordinates = [ring] \<rparr> \<and>
         ring \<noteq> [] \<and> hd ring = last ring \<and>
         take (length latlngs) ring = map (\<lambda>p. [latlng.lng p, latlng.lat p]) latlngs \<and>
         area_m2 b = js_round (calcGeodesicArea latlngs) \<and> 1 \<le> area_m2 b \<and>
         bid b = nid \<and> isCustom b \<and> label b = lbl"
    using a r g by (simp add: addBuilding_def Let_def persist_def)
qed

theorem addBuilding_atomic_witness:
  "calcGeodesicArea sample_flat < 1 \<and>
   addBuilding (33.6407, - 84.4277) ''custom_2'' True sample_flat None sample_state
     = (None, sample_state) \<and>
   \<not> (length sample_rect < 3 \<or> calcGeodesicArea sample_rect < 1) \<and>
   length (hook_state.buildings
     (snd (addBuilding (33.6407, - 84.4277) ''custom_2'' True sample_rect None sample_state))) = 2"
proof -
  have f: "calcGeodesicArea sample_flat < 1"
    by (simp add: sample_flat_area)
  have "20000 < calcGeodesicArea sample_rect"
    by (rule sample_rect_big)
  then have k: "\<not> (length sample_rect < 3 \<or> calcGeodesicArea sample_rect < 1)"
    by (simp add: sample_rect_def)
  show ?thesis
    using f k
      addBuilding_atomic [of sample_flat "(33.6407, - 84.4277)" "''custom_2''" True None sample_state]
      addBuilding_atomic [of sample_rect "(33.6407, - 84.4277)" "''custom_2''" True None sample_state]
    by (auto simp add: sample_state_def)
qed

end
